theory Spec2Isabelle
  imports Main
begin

section \<open>NotebookContexts (src/sql/parts/notebook/models/notebookContexts.ts)\<close>

text \<open>
  The module ranks the active connections offered to a notebook kernel and picks a
  default kernel. It runs in JavaScript, where a connection profile is an object: two
  profiles with the same fields are still two objects, and \<open>===\<close> tells them apart.
  The module never writes to a profile, so an object is modelled as its identity
  (\<open>oid\<close>) together with its fields; \<open>===\<close> on two profiles is equality of their
  identities, and creating an object takes the next unused identity from the world.
\<close>

subsection \<open>Data model\<close>

record IConnectionProfile =
  oid :: nat
  providerName :: string
  conn_id :: string
  serverName :: string
  options :: "(string \<times> string) list option"

text \<open>
  \<open>conn_id\<close> is the field \<open>id\<close> of the source. \<open>options\<close> is \<open>None\<close> when the
  field is undefined; \<open>Some []\<close> is the empty object \<open>{}\<close>, which JavaScript counts as true.
\<close>

record IDefaultConnection =
  defaultConnection :: IConnectionProfile
  otherConnections :: "IConnectionProfile list"

text \<open>
  The kernel types come from the \<open>sqlops\<close> declarations. \<open>IKernelInfo\<close>, \<open>IKernelSpec\<close>
  and \<open>IKernel\<close> each have a field \<open>name\<close>; the two latter are written as extensions of
  the first so that the one selector \<open>name\<close> reads all three. \<open>kernel_id\<close> is the field
  \<open>id\<close> of \<open>IKernel\<close>.
\<close>

record IKernelInfo =
  name :: string

record IKernelSpec = IKernelInfo +
  display_name :: string

record IKernel = IKernelInfo +
  kernel_id :: string

record IKernelChangedArgs =
  oldValue :: "IKernel option"
  newValue :: "IKernel option"

record IAllKernels =
  defaultKernel :: string
  kernels :: "IKernelSpec list"

datatype 'a promise = Resolved 'a | Rejected string

text \<open>
  The connection management service is an outside collaborator. Its only operation used
  here is \<open>getActiveConnections\<close>; the field holds what the promise of that call settles
  to: a rejection, or a value that is an array of profiles or (the source guards against
  it on line 79) no array at all.
\<close>

record IConnectionManagementService =
  getActiveConnections :: "IConnectionProfile list option promise"

datatype error = FetchRejected string | TypeError

text \<open>
  The world: the next unused object identity, and how many times the service's
  \<open>getActiveConnections\<close> has been called.
\<close>

record world =
  next_oid :: nat
  fetches :: nat

definition new_profile :: "string \<Rightarrow> string \<Rightarrow> string \<Rightarrow> world \<Rightarrow> IConnectionProfile \<times> world" where
  \<comment> \<open>An object literal \<open>{providerName: p, id: i, serverName: s}\<close>: a new object each time.\<close>
  "new_profile p i s w =
     (\<lparr>oid = next_oid w, providerName = p, conn_id = i, serverName = s, options = None\<rparr>,
      w\<lparr>next_oid := next_oid w + 1\<rparr>)"

definition call_getActiveConnections ::
  "IConnectionManagementService \<Rightarrow> world \<Rightarrow> IConnectionProfile list option promise \<times> world" where
  "call_getActiveConnections connectionService w =
     (getActiveConnections connectionService, w\<lparr>fetches := fetches w + 1\<rparr>)"

definition MSSQL_PROVIDER :: string where
  "MSSQL_PROVIDER = ''MSSQL''"

definition notebookConstants_SQL :: string where
  \<comment> \<open>Modelled from the spec: \<open>notebookConstants.SQL\<close> is declared in modelInterfaces, which is
      not part of the sources at hand; the spec gives the fallback kernel as
      \<open>{name: "SQL", display_name: "SQL"}\<close>.\<close>
  "notebookConstants_SQL = ''SQL''"

definition localize_default :: "string \<Rightarrow> string \<Rightarrow> string" where
  \<comment> \<open>\<open>localize\<close> of vs/nls with no language pack loaded: the default message. The functions
      below take \<open>localize\<close> as a parameter; this instance is used at concrete inputs.\<close>
  "localize_default key message = message"

subsection \<open>Placeholder contexts (lines 19-45)\<close>

text \<open>Both are getters: every access runs the body and builds a new object.\<close>

definition DefaultContext :: "(string \<Rightarrow> string \<Rightarrow> string) \<Rightarrow> world \<Rightarrow> IDefaultConnection \<times> world" where
  "DefaultContext localize w =
     (case new_profile MSSQL_PROVIDER ''-1'' (localize ''selectConnection'' ''Select connection'') w of
        (defaultConnection', w') \<Rightarrow>
          (\<lparr>defaultConnection = defaultConnection', otherConnections = [defaultConnection']\<rparr>, w'))"

definition LocalContext :: "(string \<Rightarrow> string \<Rightarrow> string) \<Rightarrow> world \<Rightarrow> IDefaultConnection \<times> world" where
  "LocalContext localize w =
     (case new_profile MSSQL_PROVIDER ''-1'' (localize ''localhost'' ''Localhost'') w of
        (localConnection, w') \<Rightarrow>
          (\<lparr>defaultConnection = localConnection, otherConnections = [localConnection]\<rparr>, w'))"

subsection \<open>getActiveContexts (lines 75-127)\<close>

definition getActiveContexts ::
  "(string \<Rightarrow> string \<Rightarrow> string) \<Rightarrow> IConnectionManagementService \<Rightarrow> string list \<Rightarrow>
   IConnectionProfile option \<Rightarrow> world \<Rightarrow> (error + IDefaultConnection) \<times> world" where
  "getActiveContexts localize connectionService connProviderIds profile w0 =
     (case DefaultContext localize w0 of (ctx0, w1) \<Rightarrow>
      let defaultConnection0 = defaultConnection ctx0 in
      case call_getActiveConnections connectionService w1 of (settled, w2) \<Rightarrow>
      (case settled of
         Rejected e \<Rightarrow> (Inl (FetchRejected e), w2)
       | Resolved None \<Rightarrow> (Inl TypeError, w2)
       | Resolved (Some fetched) \<Rightarrow>
          let activeConnections =
                (if length fetched > 0 then filter (\<lambda>conn. conn_id conn \<noteq> ''-1'') fetched
                 else fetched)
          in
          if length activeConnections = 0 then
            (if length connProviderIds = 0 then
               (case LocalContext localize w2 of (ctx, w3) \<Rightarrow> (Inr ctx, w3))
             else
               (case DefaultContext localize w2 of (ctx, w3) \<Rightarrow> (Inr ctx, w3)))
          else
            let (defaultConnection1, activeConnections1) =
                  (if length activeConnections > 0 then
                     let connections =
                           filter (\<lambda>connection. providerName connection \<in> set connProviderIds)
                             activeConnections
                     in
                     (if length connections > 0 then
                        (case profile of
                           None \<Rightarrow> hd connections
                         | Some p \<Rightarrow>
                            (case options p of
                               None \<Rightarrow> hd connections
                             | Some opts \<Rightarrow>
                                (case find (\<lambda>connection. serverName connection = serverName p)
                                        connections of
                                   None \<Rightarrow> hd connections
                                 | Some found \<Rightarrow> found)))
                      else defaultConnection0,
                      connections)
                   else (defaultConnection0, activeConnections))
            in
            case DefaultContext localize w2 of (ctx1, w3) \<Rightarrow>
            if oid defaultConnection1 = oid (defaultConnection ctx1) then
              (case new_profile ''SQL'' ''-2'' (localize ''addConnection'' ''Add new connection'') w3 of
                 (newConnection, w4) \<Rightarrow>
                   (Inr \<lparr>defaultConnection = defaultConnection1,
                         otherConnections = activeConnections1 @ [newConnection]\<rparr>, w4))
            else
              (Inr \<lparr>defaultConnection = defaultConnection1,
                    otherConnections = activeConnections1\<rparr>, w3)))"

text \<open>
  Line 82 reads \<open>activeConnections.length\<close>; when the service resolved to no array that
  read throws a TypeError, which rejects the promise of \<open>getActiveContexts\<close>. Line 104
  reads \<open>connections[0]\<close> only under \<open>connections.length > 0\<close>, so \<open>hd\<close> is never
  applied to the empty list. Lines 106-107 call \<open>find\<close> twice with the same predicate on
  the same array; the model calls it once. Line 114 compares \<open>defaultConnection\<close> with
  the profile of a further access to the \<open>DefaultContext\<close> getter.
\<close>

subsection \<open>getContextsForKernel (lines 53-68)\<close>

definition getContextsForKernel ::
  "(string \<Rightarrow> string \<Rightarrow> string) \<Rightarrow> IConnectionManagementService \<Rightarrow> string list \<Rightarrow>
   IKernelChangedArgs option \<Rightarrow> IConnectionProfile option \<Rightarrow> world \<Rightarrow>
   (error + IDefaultConnection) \<times> world" where
  "getContextsForKernel localize connectionService connProviderIds kernelChangedArgs profile w0 =
     (case DefaultContext localize w0 of (connections, w1) \<Rightarrow>
      if profile = None \<and>
         (case kernelChangedArgs of
            None \<Rightarrow> True
          | Some args \<Rightarrow>
             (case newValue args of
                None \<Rightarrow> True
              | Some new \<Rightarrow>
                 (case oldValue args of
                    None \<Rightarrow> False
                  | Some old \<Rightarrow> kernel_id new = kernel_id old)))
      then (Inr connections, w1)
      else if (case kernelChangedArgs of
                 None \<Rightarrow> False
               | Some args \<Rightarrow>
                  (case newValue args of
                     None \<Rightarrow> False
                   | Some new \<Rightarrow> name new \<noteq> ''''))
              \<and> length connProviderIds < 1
      then (Inr connections, w1)
      else getActiveContexts localize connectionService connProviderIds profile w1)"

subsection \<open>getDefaultKernel (lines 135-158)\<close>

definition getDefaultKernel ::
  "IAllKernels option \<Rightarrow> IConnectionProfile option \<Rightarrow> IKernelInfo option \<Rightarrow> 'n \<Rightarrow> IKernelSpec" where
  "getDefaultKernel specs connectionInfo savedKernelInfo notificationService =
     (let (defaultKernel0, savedKernel) =
            (case specs of
               None \<Rightarrow> (None, None)
             | Some s \<Rightarrow>
                (find (\<lambda>kernel. name kernel = defaultKernel s) (kernels s),
                 (case savedKernelInfo of
                    None \<Rightarrow> None
                  | Some info \<Rightarrow> find (\<lambda>kernel. name kernel = name info) (kernels s))));
          defaultKernel1 =
            (if specs \<noteq> None \<and> connectionInfo \<noteq> None then
               (case savedKernel of None \<Rightarrow> defaultKernel0 | Some saved \<Rightarrow> Some saved)
             else defaultKernel0)
      in case defaultKernel1 of
           None \<Rightarrow> \<lparr>name = notebookConstants_SQL, display_name = notebookConstants_SQL\<rparr>
         | Some resolved \<Rightarrow> resolved)"

subsection \<open>The default after lines 103-110, as a function of its own\<close>

text \<open>
  Used only to state lemmas about \<open>getActiveContexts\<close>: the connection that lines
  103-110 leave in \<open>defaultConnection\<close> when the provider-filtered list is not empty.
\<close>

definition chosen :: "IConnectionProfile option \<Rightarrow> IConnectionProfile list \<Rightarrow> IConnectionProfile" where
  "chosen profile connections =
     (case profile of
        None \<Rightarrow> hd connections
      | Some p \<Rightarrow>
         (case options p of
            None \<Rightarrow> hd connections
          | Some opts \<Rightarrow>
             (case find (\<lambda>connection. serverName connection = serverName p) connections of
                None \<Rightarrow> hd connections
              | Some found \<Rightarrow> found)))"

subsection \<open>Concrete inputs\<close>

definition conn_A :: IConnectionProfile where
  "conn_A = \<lparr>oid = 0, providerName = ''MSSQL'', conn_id = ''1'', serverName = ''A'', options = None\<rparr>"

definition conn_B :: IConnectionProfile where
  "conn_B = \<lparr>oid = 1, providerName = ''PGSQL'', conn_id = ''2'', serverName = ''B'', options = None\<rparr>"

definition conn_C :: IConnectionProfile where
  "conn_C = \<lparr>oid = 2, providerName = ''MSSQL'', conn_id = ''3'', serverName = ''C'', options = None\<rparr>"

definition world_3 :: world where
  \<comment> \<open>Three objects exist (\<open>conn_A\<close>, \<open>conn_B\<close>, \<open>conn_C\<close>); the service has not been called.\<close>
  "world_3 = \<lparr>next_oid = 3, fetches = 0\<rparr>"

definition serving :: "IConnectionProfile list \<Rightarrow> IConnectionManagementService" where
  \<comment> \<open>A service whose \<open>getActiveConnections\<close> resolves to the given array.\<close>
  "serving cs = \<lparr>getActiveConnections = Resolved (Some cs)\<rparr>"

definition profile_A :: IConnectionProfile where
  \<comment> \<open>A current profile for server \<open>A\<close> that carries options.\<close>
  "profile_A = \<lparr>oid = 3, providerName = ''MSSQL'', conn_id = ''4'', serverName = ''A'',
                 options = Some [(''x'', ''1'')]\<rparr>"

definition world_4 :: world where
  \<comment> \<open>Four objects exist (\<open>conn_A\<close>, \<open>conn_B\<close>, \<open>conn_C\<close>, \<open>profile_A\<close>); the service has not been called.\<close>
  "world_4 = \<lparr>next_oid = 4, fetches = 0\<rparr>"

definition spec_Python :: IKernelSpec where
  "spec_Python = \<lparr>name = ''Python'', display_name = ''Python 3''\<rparr>"

definition spec_SQL :: IKernelSpec where
  "spec_SQL = \<lparr>name = ''SQL'', display_name = ''SQL Server''\<rparr>"

definition spec_Python_again :: IKernelSpec where
  "spec_Python_again = \<lparr>name = ''Python'', display_name = ''Python 2''\<rparr>"

definition all_kernels :: IAllKernels where
  "all_kernels = \<lparr>defaultKernel = ''SQL'', kernels = [spec_Python, spec_SQL, spec_Python_again]\<rparr>"

section \<open>Properties\<close>

lemmas example_defs = conn_A_def conn_B_def conn_C_def world_3_def serving_def localize_default_def

lemmas override_defs = profile_A_def world_4_def

lemmas kernel_defs = spec_Python_def spec_SQL_def spec_Python_again_def all_kernels_def

lemmas run_defs = getActiveContexts_def getContextsForKernel_def DefaultContext_def LocalContext_def
  new_profile_def call_getActiveConnections_def MSSQL_PROVIDER_def Let_def

subsection \<open>What the placeholders are\<close>

lemma DefaultContext_simp:
  "DefaultContext localize w =
     (\<lparr>defaultConnection = \<lparr>oid = next_oid w, providerName = ''MSSQL'', conn_id = ''-1'',
           serverName = localize ''selectConnection'' ''Select connection'', options = None\<rparr>,
       otherConnections = [\<lparr>oid = next_oid w, providerName = ''MSSQL'', conn_id = ''-1'',
           serverName = localize ''selectConnection'' ''Select connection'', options = None\<rparr>]\<rparr>,
      w\<lparr>next_oid := next_oid w + 1\<rparr>)"
  by (simp add: DefaultContext_def new_profile_def MSSQL_PROVIDER_def)

lemma LocalContext_simp:
  "LocalContext localize w =
     (\<lparr>defaultConnection = \<lparr>oid = next_oid w, providerName = ''MSSQL'', conn_id = ''-1'',
           serverName = localize ''localhost'' ''Localhost'', options = None\<rparr>,
       otherConnections = [\<lparr>oid = next_oid w, providerName = ''MSSQL'', conn_id = ''-1'',
           serverName = localize ''localhost'' ''Localhost'', options = None\<rparr>]\<rparr>,
      w\<lparr>next_oid := next_oid w + 1\<rparr>)"
  by (simp add: LocalContext_def new_profile_def MSSQL_PROVIDER_def)

subsection \<open>getActiveContexts, branch by branch\<close>

lemma drop_placeholders:
  "(if length fetched > 0 then filter P fetched else fetched) = filter P fetched"
  by simp

lemma getActiveContexts_resolved:
  assumes "getActiveConnections svc = Resolved (Some fetched)"
  shows "getActiveContexts localize svc ids profile w =
     (let w2 = w\<lparr>next_oid := next_oid w + 1, fetches := fetches w + 1\<rparr>;
          activeConnections = filter (\<lambda>conn. conn_id conn \<noteq> ''-1'') fetched;
          connections = filter (\<lambda>c. providerName c \<in> set ids) activeConnections
      in if activeConnections = [] then
           (if ids = [] then (case LocalContext localize w2 of (c, w') \<Rightarrow> (Inr c, w'))
            else (case DefaultContext localize w2 of (c, w') \<Rightarrow> (Inr c, w')))
         else if connections = [] then
           (Inr \<lparr>defaultConnection =
                   fst (new_profile ''MSSQL'' ''-1''
                          (localize ''selectConnection'' ''Select connection'') w),
                 otherConnections = []\<rparr>,
            w\<lparr>next_oid := next_oid w + 2, fetches := fetches w + 1\<rparr>)
         else if oid (chosen profile connections) = next_oid w + 1 then
           (Inr \<lparr>defaultConnection = chosen profile connections,
                 otherConnections =
                   connections @
                   [fst (new_profile ''SQL'' ''-2'' (localize ''addConnection'' ''Add new connection'')
                           (w\<lparr>next_oid := next_oid w + 2\<rparr>))]\<rparr>,
            w\<lparr>next_oid := next_oid w + 3, fetches := fetches w + 1\<rparr>)
         else
           (Inr \<lparr>defaultConnection = chosen profile connections, otherConnections = connections\<rparr>,
            w\<lparr>next_oid := next_oid w + 2, fetches := fetches w + 1\<rparr>))"
  unfolding getActiveContexts_def drop_placeholders
  using assms
  by (simp add: DefaultContext_simp call_getActiveConnections_def
      new_profile_def Let_def chosen_def)

lemma getActiveContexts_Inr:
  assumes "fst (getActiveContexts localize svc ids profile w) = Inr r"
  shows "\<exists>fetched. getActiveConnections svc = Resolved (Some fetched)"
proof (cases "getActiveConnections svc")
  case (Resolved v)
  with assms show ?thesis
    by (cases v) (simp_all add: getActiveContexts_def DefaultContext_simp call_getActiveConnections_def)
next
  case (Rejected e)
  with assms show ?thesis
    by (simp add: getActiveContexts_def DefaultContext_simp call_getActiveConnections_def)
qed

lemma chosen_in_set: "connections \<noteq> [] \<Longrightarrow> chosen profile connections \<in> set connections"
  by (auto simp: chosen_def find_Some_iff split: option.splits)

lemma chosen_first_match:
  assumes "options p = Some opts" and "i < length connections"
      and "serverName (connections ! i) = serverName p"
      and "\<forall>j<i. serverName (connections ! j) \<noteq> serverName p"
  shows "chosen (Some p) connections = connections ! i"
proof -
  have "find (\<lambda>c. serverName c = serverName p) connections = Some (connections ! i)"
    using assms by (auto simp: find_Some_iff)
  then show ?thesis using assms(1) by (simp add: chosen_def)
qed

lemma chosen_no_match:
  "\<forall>c\<in>set connections. serverName c \<noteq> serverName p \<Longrightarrow> chosen (Some p) connections = hd connections"
proof -
  assume "\<forall>c\<in>set connections. serverName c \<noteq> serverName p"
  then have "find (\<lambda>c. serverName c = serverName p) connections = None"
    by (simp add: find_None_iff)
  then show ?thesis by (simp add: chosen_def split: option.splits)
qed

lemma chosen_allocated:
  assumes "\<forall>c\<in>set fetched. oid c < next_oid w" and "set connections \<subseteq> set fetched"
      and "connections \<noteq> []"
  shows "oid (chosen profile connections) \<noteq> next_oid w + 1"
proof -
  have "chosen profile connections \<in> set fetched"
    using chosen_in_set[OF assms(3)] assms(2) by blast
  with assms(1) have "oid (chosen profile connections) < next_oid w" by blast
  then show ?thesis by simp
qed

lemma getActiveContexts_ranked:
  assumes "getActiveConnections svc = Resolved (Some fetched)"
      and "filter (\<lambda>c. providerName c \<in> set ids) (filter (\<lambda>c. conn_id c \<noteq> ''-1'') fetched) \<noteq> []"
  shows "\<exists>others. fst (getActiveContexts localize svc ids profile w) =
           Inr \<lparr>defaultConnection =
                  chosen profile
                    (filter (\<lambda>c. providerName c \<in> set ids) (filter (\<lambda>c. conn_id c \<noteq> ''-1'') fetched)),
                otherConnections = others\<rparr>"
proof -
  let ?cs = "filter (\<lambda>c. providerName c \<in> set ids) (filter (\<lambda>c. conn_id c \<noteq> ''-1'') fetched)"
  from assms(2) have ne: "filter (\<lambda>c. conn_id c \<noteq> ''-1'') fetched \<noteq> []"
    by (auto simp: filter_empty_conv)
  show ?thesis
  proof (cases "oid (chosen profile ?cs) = next_oid w + 1")
    case True
    with ne assms(2) show ?thesis
      by (simp add: getActiveContexts_resolved[OF assms(1)] Let_def)
  next
    case False
    with ne assms(2) show ?thesis
      by (simp add: getActiveContexts_resolved[OF assms(1)] Let_def)
  qed
qed

text \<open>
  When no active connection has an allowed provider, the default stays the placeholder of
  line 76 and nothing is listed: the comparison on line 114 is made with the profile of a
  further \<open>DefaultContext\<close> access, a different object, so lines 115-120 do not run.
\<close>

lemma getActiveContexts_no_allowed:
  assumes "getActiveConnections svc = Resolved (Some fetched)"
      and "filter (\<lambda>conn. conn_id conn \<noteq> ''-1'') fetched \<noteq> []"
      and "\<forall>c\<in>set fetched. conn_id c \<noteq> ''-1'' \<longrightarrow> providerName c \<notin> set ids"
  shows "fst (getActiveContexts localize svc ids profile w) =
           Inr \<lparr>defaultConnection =
                  \<lparr>oid = next_oid w, providerName = ''MSSQL'', conn_id = ''-1'',
                   serverName = localize ''selectConnection'' ''Select connection'', options = None\<rparr>,
                otherConnections = []\<rparr>"
proof -
  have "filter (\<lambda>c. providerName c \<in> set ids) (filter (\<lambda>conn. conn_id conn \<noteq> ''-1'') fetched) = []"
    using assms(3) by (auto simp: filter_empty_conv)
  then show ?thesis using assms(2)
    by (simp add: getActiveContexts_resolved[OF assms(1)] Let_def new_profile_def)
qed

subsection \<open>Claims about getActiveContexts\<close>

text \<open>
  C1. The claim: when the active connections, without the \<open>-1\<close> entries, are not empty
  and none of them has an allowed provider, \<open>otherConnections\<close> ends with a synthetic
  "Add new connection" entry (provider \<open>SQL\<close>, id \<open>-2\<close>). The code does not do it: with
  the single active connection PGSQL/B and \<open>["MSSQL"]\<close> allowed, the default is the
  placeholder and \<open>otherConnections\<close> is empty.
\<close>

theorem add_new_connection_not_appended:
  "getActiveContexts localize_default (serving [conn_B]) [''MSSQL''] None world_3 =
     (Inr \<lparr>defaultConnection =
             \<lparr>oid = 3, providerName = ''MSSQL'', conn_id = ''-1'', serverName = ''Select connection'',
              options = None\<rparr>,
           otherConnections = []\<rparr>,
      \<lparr>next_oid = 5, fetches = 1\<rparr>)"
  by (simp add: run_defs example_defs)

text \<open>
  C4. When the fetched list, without the entries of id \<open>-1\<close>, is empty, the result is
  \<open>LocalContext\<close> (the Localhost placeholder) for an empty \<open>connProviderIds\<close> and
  \<open>DefaultContext\<close> (the Select-connection placeholder) otherwise: a profile of provider
  \<open>MSSQL\<close> and id \<open>-1\<close> that is both the default and the only listed connection.
\<close>

theorem no_active_connections_placeholder:
  assumes "getActiveConnections svc = Resolved (Some fetched)"
      and "filter (\<lambda>conn. conn_id conn \<noteq> ''-1'') fetched = []"
  shows "fst (getActiveContexts localize svc ids profile w) =
           Inr (fst ((if ids = [] then LocalContext else DefaultContext) localize
                  (w\<lparr>next_oid := next_oid w + 1, fetches := fetches w + 1\<rparr>)))
         \<and> fst (getActiveContexts localize svc ids profile w) =
           Inr \<lparr>defaultConnection =
                  \<lparr>oid = next_oid w + 1, providerName = ''MSSQL'', conn_id = ''-1'',
                   serverName = (if ids = [] then localize ''localhost'' ''Localhost''
                                 else localize ''selectConnection'' ''Select connection''),
                   options = None\<rparr>,
                otherConnections =
                  [\<lparr>oid = next_oid w + 1, providerName = ''MSSQL'', conn_id = ''-1'',
                    serverName = (if ids = [] then localize ''localhost'' ''Localhost''
                                  else localize ''selectConnection'' ''Select connection''),
                    options = None\<rparr>]\<rparr>"
  using assms(2)
  by (simp add: getActiveContexts_resolved[OF assms(1)] Let_def LocalContext_simp DefaultContext_simp)

theorem no_active_connections_placeholder_witness:
  "getActiveConnections (serving []) = Resolved (Some [])
   \<and> filter (\<lambda>conn. conn_id conn \<noteq> ''-1'') [] = []
   \<and> fst (getActiveContexts localize_default (serving []) [] None world_3) =
       Inr \<lparr>defaultConnection =
              \<lparr>oid = 4, providerName = ''MSSQL'', conn_id = ''-1'', serverName = ''Localhost'',
               options = None\<rparr>,
            otherConnections =
              [\<lparr>oid = 4, providerName = ''MSSQL'', conn_id = ''-1'', serverName = ''Localhost'',
                options = None\<rparr>]\<rparr>
   \<and> fst (getActiveContexts localize_default (serving []) [''MSSQL''] None world_3) =
       Inr \<lparr>defaultConnection =
              \<lparr>oid = 4, providerName = ''MSSQL'', conn_id = ''-1'', serverName = ''Select connection'',
               options = None\<rparr>,
            otherConnections =
              [\<lparr>oid = 4, providerName = ''MSSQL'', conn_id = ''-1'', serverName = ''Select connection'',
                options = None\<rparr>]\<rparr>"
proof -
  have f: "getActiveConnections (serving []) = Resolved (Some [])"
    by (simp add: serving_def)
  have e: "filter (\<lambda>conn. conn_id conn \<noteq> ''-1'') [] = []"
    by simp
  show ?thesis
    using f no_active_connections_placeholder [OF f e, of localize_default "[]" None world_3]
      no_active_connections_placeholder [OF f e, of localize_default "[''MSSQL'']" None world_3]
    by (simp add: world_3_def localize_default_def LocalContext_simp DefaultContext_simp)
qed

text \<open>
  C5, amended. When the provider-filtered list is not empty, \<open>otherConnections\<close> is
  exactly that filtered list, for every current profile; the default is its first element
  when there is no current profile, when the profile has no \<open>options\<close>, or when no entry
  has the profile's serverName, and it is the first entry with that serverName when the
  profile has \<open>options\<close>. So for the active connections MSSQL/A and PGSQL/B with
  \<open>["MSSQL"]\<close> allowed and no current profile, the default is the MSSQL/A record and
  \<open>otherConnections\<close> is \<open>[MSSQL/A]\<close>. The fetched profiles are objects that exist when
  the call starts (\<open>oid c < next_oid w\<close>): the objects the call builds are new ones. The
  example holds for every id of the MSSQL/A record but the sentinel \<open>-1\<close>, which line 80
  would drop.
\<close>

theorem allowed_connections_listed:
  "(getActiveConnections svc = Resolved (Some fetched)
      \<and> (\<forall>c\<in>set fetched. oid c < next_oid w)
      \<and> connections =
          filter (\<lambda>c. providerName c \<in> set ids) (filter (\<lambda>c. conn_id c \<noteq> ''-1'') fetched)
      \<and> connections \<noteq> []
    \<longrightarrow> (\<exists>d. fst (getActiveContexts localize svc ids profile w) =
                Inr \<lparr>defaultConnection = d, otherConnections = connections\<rparr>
            \<and> (profile = None \<longrightarrow> d = hd connections)
            \<and> (\<forall>p. profile = Some p \<and> options p = None \<longrightarrow> d = hd connections)
            \<and> (\<forall>p. profile = Some p \<and> (\<forall>c\<in>set connections. serverName c \<noteq> serverName p)
                  \<longrightarrow> d = hd connections)
            \<and> (\<forall>p opts i. profile = Some p \<and> options p = Some opts \<and> i < length connections
                  \<and> serverName (connections ! i) = serverName p
                  \<and> (\<forall>j<i. serverName (connections ! j) \<noteq> serverName p)
                  \<longrightarrow> d = connections ! i)))
   \<and> (i < next_oid w' \<and> id_a \<noteq> ''-1''
    \<longrightarrow> fst (getActiveContexts localize'
               \<lparr>getActiveConnections = Resolved (Some
                  [\<lparr>oid = i, providerName = ''MSSQL'', conn_id = id_a, serverName = ''A'', options = opts_a\<rparr>,
                   \<lparr>oid = j, providerName = ''PGSQL'', conn_id = id_b, serverName = ''B'', options = opts_b\<rparr>])\<rparr>
               [''MSSQL''] None w') =
          Inr \<lparr>defaultConnection =
                 \<lparr>oid = i, providerName = ''MSSQL'', conn_id = id_a, serverName = ''A'', options = opts_a\<rparr>,
               otherConnections =
                 [\<lparr>oid = i, providerName = ''MSSQL'', conn_id = id_a, serverName = ''A'', options = opts_a\<rparr>]\<rparr>)"
proof (intro conjI impI)
  assume a: "getActiveConnections svc = Resolved (Some fetched)
      \<and> (\<forall>c\<in>set fetched. oid c < next_oid w)
      \<and> connections =
          filter (\<lambda>c. providerName c \<in> set ids) (filter (\<lambda>c. conn_id c \<noteq> ''-1'') fetched)
      \<and> connections \<noteq> []"
  then have f: "getActiveConnections svc = Resolved (Some fetched)"
    and al: "\<forall>c\<in>set fetched. oid c < next_oid w"
    and cs: "connections =
          filter (\<lambda>c. providerName c \<in> set ids) (filter (\<lambda>c. conn_id c \<noteq> ''-1'') fetched)"
    and ne: "connections \<noteq> []"
    by blast+
  from cs have sub: "set connections \<subseteq> set fetched" by auto
  have fresh: "oid (chosen profile connections) \<noteq> next_oid w + 1"
    by (rule chosen_allocated[OF al sub ne])
  from cs ne have "filter (\<lambda>c. conn_id c \<noteq> ''-1'') fetched \<noteq> []"
    by (auto simp: filter_empty_conv)
  with cs ne fresh have r: "fst (getActiveContexts localize svc ids profile w) =
      Inr \<lparr>defaultConnection = chosen profile connections, otherConnections = connections\<rparr>"
    by (simp add: getActiveContexts_resolved[OF f] Let_def)
  have "profile = None \<longrightarrow> chosen profile connections = hd connections"
    by (simp add: chosen_def)
  moreover have "\<forall>p. profile = Some p \<and> options p = None
      \<longrightarrow> chosen profile connections = hd connections"
    by (simp add: chosen_def)
  moreover have "\<forall>p. profile = Some p \<and> (\<forall>c\<in>set connections. serverName c \<noteq> serverName p)
      \<longrightarrow> chosen profile connections = hd connections"
    using chosen_no_match by simp
  moreover have "\<forall>p opts i. profile = Some p \<and> options p = Some opts \<and> i < length connections
      \<and> serverName (connections ! i) = serverName p
      \<and> (\<forall>j<i. serverName (connections ! j) \<noteq> serverName p)
      \<longrightarrow> chosen profile connections = connections ! i"
    using chosen_first_match by simp
  ultimately show "\<exists>d. fst (getActiveContexts localize svc ids profile w) =
                Inr \<lparr>defaultConnection = d, otherConnections = connections\<rparr>
            \<and> (profile = None \<longrightarrow> d = hd connections)
            \<and> (\<forall>p. profile = Some p \<and> options p = None \<longrightarrow> d = hd connections)
            \<and> (\<forall>p. profile = Some p \<and> (\<forall>c\<in>set connections. serverName c \<noteq> serverName p)
                  \<longrightarrow> d = hd connections)
            \<and> (\<forall>p opts i. profile = Some p \<and> options p = Some opts \<and> i < length connections
                  \<and> serverName (connections ! i) = serverName p
                  \<and> (\<forall>j<i. serverName (connections ! j) \<noteq> serverName p)
                  \<longrightarrow> d = connections ! i)"
    using r by blast
next
  assume "i < next_oid w' \<and> id_a \<noteq> ''-1''"
  then show "fst (getActiveContexts localize'
               \<lparr>getActiveConnections = Resolved (Some
                  [\<lparr>oid = i, providerName = ''MSSQL'', conn_id = id_a, serverName = ''A'', options = opts_a\<rparr>,
                   \<lparr>oid = j, providerName = ''PGSQL'', conn_id = id_b, serverName = ''B'', options = opts_b\<rparr>])\<rparr>
               [''MSSQL''] None w') =
          Inr \<lparr>defaultConnection =
                 \<lparr>oid = i, providerName = ''MSSQL'', conn_id = id_a, serverName = ''A'', options = opts_a\<rparr>,
               otherConnections =
                 [\<lparr>oid = i, providerName = ''MSSQL'', conn_id = id_a, serverName = ''A'', options = opts_a\<rparr>]\<rparr>"
    by (simp add: run_defs)
qed

theorem allowed_connections_listed_witness:
  "getActiveConnections (serving [conn_B, conn_C, conn_A]) = Resolved (Some [conn_B, conn_C, conn_A])
   \<and> oid conn_B < next_oid world_4 \<and> oid conn_C < next_oid world_4 \<and> oid conn_A < next_oid world_4
   \<and> [conn_C, conn_A] =
       filter (\<lambda>c. providerName c \<in> set [''MSSQL''])
         (filter (\<lambda>c. conn_id c \<noteq> ''-1'') [conn_B, conn_C, conn_A])
   \<and> [conn_C, conn_A] \<noteq> []
   \<and> fst (getActiveContexts localize_default (serving [conn_B, conn_C, conn_A]) [''MSSQL''] None world_4) =
       Inr \<lparr>defaultConnection = conn_C, otherConnections = [conn_C, conn_A]\<rparr>
   \<and> fst (getActiveContexts localize_default (serving [conn_B, conn_C, conn_A]) [''MSSQL'']
            (Some (profile_A\<lparr>options := None\<rparr>)) world_4) =
       Inr \<lparr>defaultConnection = conn_C, otherConnections = [conn_C, conn_A]\<rparr>
   \<and> fst (getActiveContexts localize_default (serving [conn_B, conn_C, conn_A]) [''MSSQL'']
            (Some profile_A) world_4) =
       Inr \<lparr>defaultConnection = conn_A, otherConnections = [conn_C, conn_A]\<rparr>
   \<and> (0::nat) < next_oid world_4 \<and> ''1'' \<noteq> ''-1''
   \<and> fst (getActiveContexts localize_default (serving [conn_A, conn_B]) [''MSSQL''] None world_4) =
       Inr \<lparr>defaultConnection = conn_A, otherConnections = [conn_A]\<rparr>"
  using
    allowed_connections_listed
      [of "serving [conn_B, conn_C, conn_A]" "[conn_B, conn_C, conn_A]" world_4 "[conn_C, conn_A]"
          "[''MSSQL'']" localize_default None 0 world_4 "''1''" localize_default None 1 "''2''" None]
    allowed_connections_listed
      [of "serving [conn_B, conn_C, conn_A]" "[conn_B, conn_C, conn_A]" world_4 "[conn_C, conn_A]"
          "[''MSSQL'']" localize_default "Some (profile_A\<lparr>options := None\<rparr>)" 0 world_4 "''1''"
          localize_default None 1 "''2''" None]
    allowed_connections_listed
      [of "serving [conn_B, conn_C, conn_A]" "[conn_B, conn_C, conn_A]" world_4 "[conn_C, conn_A]"
          "[''MSSQL'']" localize_default "Some profile_A" 0 world_4 "''1''"
          localize_default None 1 "''2''" None]
  by (simp add: run_defs example_defs override_defs)

text \<open>
  C5 as first stated says that the default is the first element of the filtered list
  whenever that list is not empty. With PGSQL/B, MSSQL/C and MSSQL/A active, \<open>["MSSQL"]\<close>
  allowed and a current profile for server \<open>A\<close> that has options, the filtered list is
  \<open>[MSSQL/C, MSSQL/A]\<close> and the default is MSSQL/A, its second element.
\<close>

theorem override_default_not_first:
  "fst (getActiveContexts localize_default (serving [conn_B, conn_C, conn_A]) [''MSSQL'']
          (Some profile_A) world_4) =
     Inr \<lparr>defaultConnection = conn_A, otherConnections = [conn_C, conn_A]\<rparr>
   \<and> hd [conn_C, conn_A] \<noteq> conn_A"
  by (simp add: run_defs example_defs override_defs)

text \<open>
  C3, amended. The override of the default by the first entry of the provider-filtered
  list whose serverName equals that of the current profile happens only when the profile
  is supplied and has an \<open>options\<close> object, which may be the empty one: line 105 tests
  \<open>profile.options\<close> for being there, and \<open>{}\<close> counts as true. Without a profile,
  without \<open>options\<close>, or without a matching serverName the default is the first element;
  with \<open>options\<close> the first match in list order wins.
\<close>

theorem profile_override:
  assumes "getActiveConnections svc = Resolved (Some fetched)"
      and "connections =
             filter (\<lambda>c. providerName c \<in> set ids) (filter (\<lambda>c. conn_id c \<noteq> ''-1'') fetched)"
      and "connections \<noteq> []"
  shows "\<exists>r. fst (getActiveContexts localize svc ids profile w) = Inr r \<and>
           (profile = None \<longrightarrow> defaultConnection r = hd connections) \<and>
           (\<forall>p. profile = Some p \<and> options p = None \<longrightarrow> defaultConnection r = hd connections) \<and>
           (\<forall>p. profile = Some p \<and> (\<forall>c\<in>set connections. serverName c \<noteq> serverName p)
                 \<longrightarrow> defaultConnection r = hd connections) \<and>
           (\<forall>p opts i. profile = Some p \<and> options p = Some opts \<and> i < length connections
                 \<and> serverName (connections ! i) = serverName p
                 \<and> (\<forall>j<i. serverName (connections ! j) \<noteq> serverName p)
                 \<longrightarrow> defaultConnection r = connections ! i)"
proof -
  from assms(2,3) getActiveContexts_ranked[OF assms(1), of ids localize profile w]
  obtain others where "fst (getActiveContexts localize svc ids profile w) =
      Inr \<lparr>defaultConnection = chosen profile connections, otherConnections = others\<rparr>"
    by auto
  then obtain r where r: "fst (getActiveContexts localize svc ids profile w) = Inr r"
    and d: "defaultConnection r = chosen profile connections"
    by simp
  have "profile = None \<longrightarrow> defaultConnection r = hd connections"
    by (simp add: d chosen_def)
  moreover have "\<forall>p. profile = Some p \<and> options p = None \<longrightarrow> defaultConnection r = hd connections"
    by (simp add: d chosen_def)
  moreover have "\<forall>p. profile = Some p \<and> (\<forall>c\<in>set connections. serverName c \<noteq> serverName p)
                 \<longrightarrow> defaultConnection r = hd connections"
    using chosen_no_match by (simp add: d)
  moreover have "\<forall>p opts i. profile = Some p \<and> options p = Some opts \<and> i < length connections
                 \<and> serverName (connections ! i) = serverName p
                 \<and> (\<forall>j<i. serverName (connections ! j) \<noteq> serverName p)
                 \<longrightarrow> defaultConnection r = connections ! i"
    using chosen_first_match by (simp add: d)
  ultimately show ?thesis using r by blast
qed

theorem profile_override_witness:
  "getActiveConnections (serving [conn_A, conn_B, conn_C]) = Resolved (Some [conn_A, conn_B, conn_C])
   \<and> [conn_A, conn_C] =
       filter (\<lambda>c. providerName c \<in> set [''MSSQL''])
         (filter (\<lambda>c. conn_id c \<noteq> ''-1'') [conn_A, conn_B, conn_C])
   \<and> [conn_A, conn_C] \<noteq> []
   \<and> (\<exists>r. fst (getActiveContexts localize_default (serving [conn_A, conn_B, conn_C]) [''MSSQL'']
                 (Some \<lparr>oid = 7, providerName = ''MSSQL'', conn_id = ''9'', serverName = ''C'',
                        options = Some [(''x'', ''1'')]\<rparr>) world_3) = Inr r
          \<and> defaultConnection r = conn_C)
   \<and> (\<exists>r. fst (getActiveContexts localize_default (serving [conn_A, conn_B, conn_C]) [''MSSQL'']
                 (Some \<lparr>oid = 7, providerName = ''MSSQL'', conn_id = ''9'', serverName = ''C'',
                        options = None\<rparr>) world_3) = Inr r
          \<and> defaultConnection r = conn_A)"
proof -
  have f: "getActiveConnections (serving [conn_A, conn_B, conn_C]) = Resolved (Some [conn_A, conn_B, conn_C])"
    by (simp add: serving_def)
  have c: "[conn_A, conn_C] =
       filter (\<lambda>c. providerName c \<in> set [''MSSQL''])
         (filter (\<lambda>c. conn_id c \<noteq> ''-1'') [conn_A, conn_B, conn_C])"
    by (simp add: example_defs)
  have n: "[conn_A, conn_C] \<noteq> []"
    by simp
  have m: "serverName ([conn_A, conn_C] ! 1) = ''C''" "serverName ([conn_A, conn_C] ! 0) \<noteq> ''C''"
    by (simp_all add: example_defs)
  show ?thesis
    using f c n
      profile_override [OF f c n, of localize_default
        "Some \<lparr>oid = 7, providerName = ''MSSQL'', conn_id = ''9'', serverName = ''C'',
               options = Some [(''x'', ''1'')]\<rparr>" world_3]
      profile_override [OF f c n, of localize_default
        "Some \<lparr>oid = 7, providerName = ''MSSQL'', conn_id = ''9'', serverName = ''C'',
               options = None\<rparr>" world_3]
    by (simp add: run_defs example_defs)
qed

text \<open>
  C3 as first stated says that a profile with empty options causes no override. It does:
  with MSSQL/A and MSSQL/C active and a profile \<open>{serverName: "C", options: {}}\<close> the
  default is MSSQL/C, not the first element MSSQL/A.
\<close>

theorem empty_options_still_override:
  "fst (getActiveContexts localize_default (serving [conn_A, conn_C]) [''MSSQL'']
          (Some \<lparr>oid = 1, providerName = ''MSSQL'', conn_id = ''9'', serverName = ''C'',
                 options = Some []\<rparr>)
          world_3) =
     Inr \<lparr>defaultConnection = conn_C, otherConnections = [conn_A, conn_C]\<rparr>"
  by (simp add: run_defs example_defs)

text \<open>
  C8. In every result of \<open>getActiveContexts\<close> whose default is not a placeholder (its id
  is not \<open>-1\<close>), the default is one of the listed \<open>otherConnections\<close>.
\<close>

theorem default_member_of_others:
  assumes "fst (getActiveContexts localize svc ids profile w) = Inr r"
      and "conn_id (defaultConnection r) \<noteq> ''-1''"
  shows "defaultConnection r \<in> set (otherConnections r)"
proof -
  from getActiveContexts_Inr[OF assms(1)] obtain fetched
    where f: "getActiveConnections svc = Resolved (Some fetched)" by blast
  let ?cs = "filter (\<lambda>c. providerName c \<in> set ids) (filter (\<lambda>conn. conn_id conn \<noteq> ''-1'') fetched)"
  show ?thesis
  proof (cases "?cs = []")
    case True
    with assms f show ?thesis
      by (auto simp: getActiveContexts_resolved[OF f] Let_def LocalContext_simp DefaultContext_simp
          new_profile_def split: if_splits)
  next
    case False
    then have "chosen profile ?cs \<in> set ?cs" by (rule chosen_in_set)
    moreover from False have "filter (\<lambda>conn. conn_id conn \<noteq> ''-1'') fetched \<noteq> []"
      by (auto simp: filter_empty_conv)
    ultimately show ?thesis using assms(1) False
      by (auto simp: getActiveContexts_resolved[OF f] Let_def split: if_splits)
  qed
qed

theorem default_member_of_others_witness:
  "fst (getActiveContexts localize_default (serving [conn_A, conn_B]) [''MSSQL''] None world_3) =
     Inr \<lparr>defaultConnection = conn_A, otherConnections = [conn_A]\<rparr>
   \<and> conn_id (defaultConnection \<lparr>defaultConnection = conn_A, otherConnections = [conn_A]\<rparr>) \<noteq> ''-1''
   \<and> defaultConnection \<lparr>defaultConnection = conn_A, otherConnections = [conn_A]\<rparr>
       \<in> set (otherConnections \<lparr>defaultConnection = conn_A, otherConnections = [conn_A]\<rparr>)"
proof -
  have h: "fst (getActiveContexts localize_default (serving [conn_A, conn_B]) [''MSSQL''] None world_3) =
     Inr \<lparr>defaultConnection = conn_A, otherConnections = [conn_A]\<rparr>"
    by (simp add: run_defs example_defs)
  have i: "conn_id (defaultConnection \<lparr>defaultConnection = conn_A, otherConnections = [conn_A]\<rparr>) \<noteq> ''-1''"
    by (simp add: conn_A_def)
  show ?thesis using h i default_member_of_others [OF h i] by simp
qed

subsection \<open>Claims about getContextsForKernel\<close>

text \<open>
  C2, amended. With no current profile, \<open>getContextsForKernel\<close> returns the placeholder
  \<open>DefaultContext\<close> without calling the service when there is no kernel-change event,
  when the event has no new kernel, or when the old and the new kernel have the same id
  (line 57 compares \<open>id\<close>, not \<open>name\<close>).
\<close>

theorem same_kernel_no_fetch:
  assumes "kernelChangedArgs = None
           \<or> (\<exists>args. kernelChangedArgs = Some args
                \<and> (newValue args = None
                   \<or> (\<exists>new old. newValue args = Some new \<and> oldValue args = Some old
                         \<and> kernel_id new = kernel_id old)))"
  shows "getContextsForKernel localize svc ids kernelChangedArgs None w =
           (Inr (fst (DefaultContext localize w)), snd (DefaultContext localize w))
         \<and> fetches (snd (getContextsForKernel localize svc ids kernelChangedArgs None w)) = fetches w
         \<and> fst (getContextsForKernel localize svc ids kernelChangedArgs None w) =
             Inr \<lparr>defaultConnection =
                    \<lparr>oid = next_oid w, providerName = ''MSSQL'', conn_id = ''-1'',
                     serverName = localize ''selectConnection'' ''Select connection'', options = None\<rparr>,
                  otherConnections =
                    [\<lparr>oid = next_oid w, providerName = ''MSSQL'', conn_id = ''-1'',
                      serverName = localize ''selectConnection'' ''Select connection'', options = None\<rparr>]\<rparr>"
proof -
  have "getContextsForKernel localize svc ids kernelChangedArgs None w =
           (Inr (fst (DefaultContext localize w)), snd (DefaultContext localize w))"
    using assms by (auto simp: getContextsForKernel_def split: prod.splits)
  then show ?thesis by (simp add: DefaultContext_simp)
qed

theorem same_kernel_no_fetch_witness:
  "getContextsForKernel localize_default (serving [conn_A]) [''MSSQL'']
     (Some \<lparr>oldValue = Some \<lparr>name = ''SQL'', kernel_id = ''k1''\<rparr>,
            newValue = Some \<lparr>name = ''Python'', kernel_id = ''k1''\<rparr>\<rparr>)
     None world_3 =
   (Inr \<lparr>defaultConnection =
           \<lparr>oid = 3, providerName = ''MSSQL'', conn_id = ''-1'', serverName = ''Select connection'',
            options = None\<rparr>,
         otherConnections =
           [\<lparr>oid = 3, providerName = ''MSSQL'', conn_id = ''-1'', serverName = ''Select connection'',
             options = None\<rparr>]\<rparr>,
    \<lparr>next_oid = 4, fetches = 0\<rparr>)
   \<and> fst (getContextsForKernel localize_default (serving [conn_A]) [''MSSQL''] None None world_3) =
       Inr \<lparr>defaultConnection =
           \<lparr>oid = 3, providerName = ''MSSQL'', conn_id = ''-1'', serverName = ''Select connection'',
            options = None\<rparr>,
         otherConnections =
           [\<lparr>oid = 3, providerName = ''MSSQL'', conn_id = ''-1'', serverName = ''Select connection'',
             options = None\<rparr>]\<rparr>
   \<and> fetches (snd (getContextsForKernel localize_default (serving [conn_A]) [''MSSQL'']
                     (Some \<lparr>oldValue = Some \<lparr>name = ''SQL'', kernel_id = ''k1''\<rparr>, newValue = None\<rparr>)
                     None world_3)) = 0"
  using
    same_kernel_no_fetch [of "Some \<lparr>oldValue = Some \<lparr>name = ''SQL'', kernel_id = ''k1''\<rparr>,
            newValue = Some \<lparr>name = ''Python'', kernel_id = ''k1''\<rparr>\<rparr>" localize_default
            "serving [conn_A]" "[''MSSQL'']" world_3]
    same_kernel_no_fetch [of None localize_default "serving [conn_A]" "[''MSSQL'']" world_3]
    same_kernel_no_fetch [of "Some \<lparr>oldValue = Some \<lparr>name = ''SQL'', kernel_id = ''k1''\<rparr>,
            newValue = None\<rparr>" localize_default "serving [conn_A]" "[''MSSQL'']" world_3]
  by (simp add: DefaultContext_simp world_3_def localize_default_def)

text \<open>
  C2 as first stated speaks of kernels with the same name. Two kernels named \<open>SQL\<close> with
  ids \<open>k1\<close> and \<open>k2\<close> are not the same for line 57: the service is called once and the
  result is the ranking of the active connections.
\<close>

theorem same_name_other_id_fetches:
  "getContextsForKernel localize_default (serving [conn_A]) [''MSSQL'']
     (Some \<lparr>oldValue = Some \<lparr>name = ''SQL'', kernel_id = ''k1''\<rparr>,
            newValue = Some \<lparr>name = ''SQL'', kernel_id = ''k2''\<rparr>\<rparr>)
     None world_3 =
   (Inr \<lparr>defaultConnection = conn_A, otherConnections = [conn_A]\<rparr>, \<lparr>next_oid = 6, fetches = 1\<rparr>)"
  by (simp add: run_defs example_defs)

subsection \<open>Claims about getDefaultKernel\<close>

lemma find_first:
  assumes "i < length xs" and "P (xs ! i)" and "\<forall>j<i. \<not> P (xs ! j)"
  shows "find P xs = Some (xs ! i)"
  using assms by (auto simp: find_Some_iff)

lemma find_none: "\<forall>x\<in>set xs. \<not> P x \<Longrightarrow> find P xs = None"
  by (simp add: find_None_iff)

lemma getDefaultKernel_specs:
  "getDefaultKernel (Some s) connectionInfo savedKernelInfo n =
     (let defaultKernel0 = find (\<lambda>k. name k = defaultKernel s) (kernels s);
          savedKernel = (case savedKernelInfo of
                           None \<Rightarrow> None
                         | Some info \<Rightarrow> find (\<lambda>k. name k = name info) (kernels s))
      in case (if connectionInfo \<noteq> None
               then (case savedKernel of None \<Rightarrow> defaultKernel0 | Some saved \<Rightarrow> Some saved)
               else defaultKernel0) of
           None \<Rightarrow> \<lparr>name = ''SQL'', display_name = ''SQL''\<rparr>
         | Some resolved \<Rightarrow> resolved)"
  unfolding getDefaultKernel_def notebookConstants_SQL_def
  by (simp add: Let_def)

lemma getDefaultKernel_no_specs:
  "getDefaultKernel None connectionInfo savedKernelInfo n = \<lparr>name = ''SQL'', display_name = ''SQL''\<rparr>"
  by (simp add: getDefaultKernel_def notebookConstants_SQL_def)

text \<open>
  C6. With specs, connectionInfo and savedKernelInfo all given: when some kernel of
  \<open>specs.kernels\<close> has the saved name, the first such kernel in list order is returned,
  whatever \<open>specs.defaultKernel\<close> matches; when none has it, the first kernel whose name
  is \<open>specs.defaultKernel\<close> is returned. Names are compared as strings.
\<close>

theorem saved_kernel_preferred:
  "(i < length (kernels s) \<and> name (kernels s ! i) = name saved
      \<and> (\<forall>j<i. name (kernels s ! j) \<noteq> name saved)
    \<longrightarrow> getDefaultKernel (Some s) (Some connectionInfo) (Some saved) n = kernels s ! i)
   \<and> ((\<forall>k\<in>set (kernels s). name k \<noteq> name saved)
      \<and> i < length (kernels s) \<and> name (kernels s ! i) = defaultKernel s
      \<and> (\<forall>j<i. name (kernels s ! j) \<noteq> defaultKernel s)
    \<longrightarrow> getDefaultKernel (Some s) (Some connectionInfo) (Some saved) n = kernels s ! i)"
proof (intro conjI impI)
  assume "i < length (kernels s) \<and> name (kernels s ! i) = name saved
      \<and> (\<forall>j<i. name (kernels s ! j) \<noteq> name saved)"
  then have "find (\<lambda>k. name k = name saved) (kernels s) = Some (kernels s ! i)"
    by (intro find_first) simp_all
  then show "getDefaultKernel (Some s) (Some connectionInfo) (Some saved) n = kernels s ! i"
    by (simp add: getDefaultKernel_specs)
next
  assume a: "(\<forall>k\<in>set (kernels s). name k \<noteq> name saved)
      \<and> i < length (kernels s) \<and> name (kernels s ! i) = defaultKernel s
      \<and> (\<forall>j<i. name (kernels s ! j) \<noteq> defaultKernel s)"
  then have "find (\<lambda>k. name k = name saved) (kernels s) = None"
    by (intro find_none) simp
  moreover from a have "find (\<lambda>k. name k = defaultKernel s) (kernels s) = Some (kernels s ! i)"
    by (intro find_first) simp_all
  ultimately show "getDefaultKernel (Some s) (Some connectionInfo) (Some saved) n = kernels s ! i"
    by (simp add: getDefaultKernel_specs)
qed

theorem saved_kernel_preferred_witness:
  "(0 < length (kernels all_kernels) \<and> name (kernels all_kernels ! 0) = name \<lparr>name = ''Python''\<rparr>
      \<and> getDefaultKernel (Some all_kernels) (Some conn_A) (Some \<lparr>name = ''Python''\<rparr>) () = spec_Python)
   \<and> (name spec_Python \<noteq> name \<lparr>name = ''Scala''\<rparr> \<and> name spec_SQL \<noteq> name \<lparr>name = ''Scala''\<rparr>
      \<and> name spec_Python_again \<noteq> name \<lparr>name = ''Scala''\<rparr>
      \<and> 1 < length (kernels all_kernels) \<and> name (kernels all_kernels ! 1) = defaultKernel all_kernels
      \<and> name (kernels all_kernels ! 0) \<noteq> defaultKernel all_kernels
      \<and> getDefaultKernel (Some all_kernels) (Some conn_A) (Some \<lparr>name = ''Scala''\<rparr>) () = spec_SQL)"
  using saved_kernel_preferred [of 0 all_kernels "\<lparr>name = ''Python''\<rparr>" conn_A "()"]
    saved_kernel_preferred [of 1 all_kernels "\<lparr>name = ''Scala''\<rparr>" conn_A "()"]
  by (simp add: kernel_defs)

text \<open>
  C7. \<open>getDefaultKernel\<close> returns a kernel spec on every input: the fallback
  \<open>{name: "SQL", display_name: "SQL"}\<close> when specs is absent, and when no kernel has the
  name \<open>specs.defaultKernel\<close> and the saved kernel does not apply (no connectionInfo, no
  savedKernelInfo, or no kernel of the saved name); otherwise a kernel of \<open>specs.kernels\<close>.
  In particular \<open>getDefaultKernel(undefined, undefined, undefined)\<close> is the fallback.
\<close>

theorem fallback_kernel:
  "(getDefaultKernel None connectionInfo savedKernelInfo n = \<lparr>name = ''SQL'', display_name = ''SQL''\<rparr>)
   \<and> ((\<forall>k\<in>set (kernels s). name k \<noteq> defaultKernel s)
       \<and> (connectionInfo = None \<or> savedKernelInfo = None
          \<or> (\<exists>info. savedKernelInfo = Some info \<and> (\<forall>k\<in>set (kernels s). name k \<noteq> name info)))
      \<longrightarrow> getDefaultKernel (Some s) connectionInfo savedKernelInfo n =
            \<lparr>name = ''SQL'', display_name = ''SQL''\<rparr>)
   \<and> (getDefaultKernel (Some s) connectionInfo savedKernelInfo n = \<lparr>name = ''SQL'', display_name = ''SQL''\<rparr>
      \<or> getDefaultKernel (Some s) connectionInfo savedKernelInfo n \<in> set (kernels s))
   \<and> getDefaultKernel None None None n = \<lparr>name = ''SQL'', display_name = ''SQL''\<rparr>"
proof (intro conjI impI)
  show "getDefaultKernel None connectionInfo savedKernelInfo n = \<lparr>name = ''SQL'', display_name = ''SQL''\<rparr>"
    by (rule getDefaultKernel_no_specs)
next
  assume a: "(\<forall>k\<in>set (kernels s). name k \<noteq> defaultKernel s)
       \<and> (connectionInfo = None \<or> savedKernelInfo = None
          \<or> (\<exists>info. savedKernelInfo = Some info \<and> (\<forall>k\<in>set (kernels s). name k \<noteq> name info)))"
  then have d: "find (\<lambda>k. name k = defaultKernel s) (kernels s) = None"
    by (intro find_none) simp
  from a have "connectionInfo = None \<or> savedKernelInfo = None
      \<or> (\<exists>info. savedKernelInfo = Some info \<and> find (\<lambda>k. name k = name info) (kernels s) = None)"
    by (auto simp: find_None_iff)
  with d show "getDefaultKernel (Some s) connectionInfo savedKernelInfo n =
            \<lparr>name = ''SQL'', display_name = ''SQL''\<rparr>"
    by (auto simp: getDefaultKernel_specs)
next
  show "getDefaultKernel (Some s) connectionInfo savedKernelInfo n = \<lparr>name = ''SQL'', display_name = ''SQL''\<rparr>
      \<or> getDefaultKernel (Some s) connectionInfo savedKernelInfo n \<in> set (kernels s)"
    by (auto simp: getDefaultKernel_specs Let_def find_Some_iff split: option.splits)
next
  show "getDefaultKernel None None None n = \<lparr>name = ''SQL'', display_name = ''SQL''\<rparr>"
    by (rule getDefaultKernel_no_specs)
qed

theorem fallback_kernel_witness:
  "name spec_Python \<noteq> defaultKernel (all_kernels\<lparr>defaultKernel := ''Spark''\<rparr>)
   \<and> name spec_SQL \<noteq> defaultKernel (all_kernels\<lparr>defaultKernel := ''Spark''\<rparr>)
   \<and> name spec_Python_again \<noteq> defaultKernel (all_kernels\<lparr>defaultKernel := ''Spark''\<rparr>)
   \<and> name spec_Python \<noteq> name \<lparr>name = ''Scala''\<rparr> \<and> name spec_SQL \<noteq> name \<lparr>name = ''Scala''\<rparr>
   \<and> name spec_Python_again \<noteq> name \<lparr>name = ''Scala''\<rparr>
   \<and> getDefaultKernel (Some (all_kernels\<lparr>defaultKernel := ''Spark''\<rparr>)) (Some conn_A)
        (Some \<lparr>name = ''Scala''\<rparr>) () = \<lparr>name = ''SQL'', display_name = ''SQL''\<rparr>
   \<and> getDefaultKernel (Some (all_kernels\<lparr>defaultKernel := ''Spark''\<rparr>)) None
        (Some \<lparr>name = ''Python''\<rparr>) () = \<lparr>name = ''SQL'', display_name = ''SQL''\<rparr>
   \<and> getDefaultKernel None None None () = \<lparr>name = ''SQL'', display_name = ''SQL''\<rparr>"
  using fallback_kernel [of "Some conn_A" "Some \<lparr>name = ''Scala''\<rparr>" "()" "all_kernels\<lparr>defaultKernel := ''Spark''\<rparr>"]
    fallback_kernel [of None "Some \<lparr>name = ''Python''\<rparr>" "()" "all_kernels\<lparr>defaultKernel := ''Spark''\<rparr>"]
  by (simp add: kernel_defs)

text \<open>
  C9. Two calls of \<open>getDefaultKernel\<close> that differ only in the notification service
  return the same kernel spec.
\<close>

theorem notificationService_unused:
  "getDefaultKernel specs connectionInfo savedKernelInfo notificationService =
   getDefaultKernel specs connectionInfo savedKernelInfo notificationService'"
  by (simp add: getDefaultKernel_def)

text \<open>
  C10. With specs and savedKernelInfo given but no connectionInfo, the saved kernel is
  ignored: the result is the one for no savedKernelInfo at all, namely the first kernel
  whose name is \<open>specs.defaultKernel\<close>, or the SQL fallback when there is none.
\<close>

theorem saved_kernel_ignored_without_connection:
  "getDefaultKernel (Some s) None (Some saved) n = getDefaultKernel (Some s) None None n
   \<and> getDefaultKernel (Some s) None (Some saved) n =
       (case find (\<lambda>k. name k = defaultKernel s) (kernels s) of
          None \<Rightarrow> \<lparr>name = ''SQL'', display_name = ''SQL''\<rparr>
        | Some matching \<Rightarrow> matching)"
  by (simp add: getDefaultKernel_specs)

end
